theory Spec2Isabelle
  imports Complex_Main "HOL-Library.Word"
begin

section \<open>Data model\<close>

text \<open>
  A Python \<open>str\<close> is a sequence of Unicode code points; it is modelled as a list of
  natural numbers. \<open>py\<close> turns an Isabelle literal into such a string. \<open>bytes\<close> are
  lists of 8-bit words. Modification times (\<open>st_mtime\<close>) are only compared, and are
  modelled as real numbers.
\<close>

type_synonym pystr = "nat list"
type_synonym byte = "8 word"
type_synonym mtime = real

definition py :: "string \<Rightarrow> pystr" where
  "py s = map of_char s"

text \<open>
  \<open>class PuElement\<close>: the per-diagram descriptor (\<open>file\<close> is written \<open>file_name\<close>).
  \<open>src_file\<close> holds a reference to a Python list object, the result of
  \<open>readlines()\<close>; list objects live in the store of the world below.
\<close>

record PuElement =
  file_name :: pystr
  directory :: pystr
  out_dir :: pystr
  root_dir :: pystr
  img_time :: mtime
  img_time_dark :: mtime
  inc_time :: mtime
  src_time :: mtime
  out_file :: pystr
  out_file_dark :: pystr
  b64encoded :: pystr
  concat_file :: pystr
  src_file :: nat

text \<open>\<open>class BuildPlantumlPluginConfig\<close>, one field per option.\<close>

record config =
  render :: pystr
  server :: pystr
  disable_ssl_certificate_validation :: bool
  bin_path :: pystr
  output_format :: pystr
  allow_multiple_roots :: bool
  diagram_root :: pystr
  output_folder :: pystr
  output_in_dir :: bool
  input_folder :: pystr
  input_extensions :: pystr
  theme_enabled :: bool
  theme_folder :: pystr
  theme_light :: pystr
  theme_dark :: pystr
  prettify_svg :: bool

text \<open>
  The exceptions that the modelled code raises or lets through. \<open>PyException\<close> is a
  plain \<open>Exception(message)\<close>.
\<close>

datatype error =
    FileNotFoundError pystr
  | IsADirectoryError pystr
  | NotADirectoryError pystr
  | FileExistsError pystr
  | TypeError
  | AttributeError
  | RecursionError
  | RuntimeError pystr
  | UnicodeError
  | ExternalError pystr
  | PyException pystr

text \<open>A file system entry: a directory, or a regular file with its text content.\<close>

datatype fs_entry = Dir mtime | File mtime pystr

fun st_mtime :: "fs_entry \<Rightarrow> mtime" where
  "st_mtime (Dir t) = t"
| "st_mtime (File t c) = t"

text \<open>One constructor per \<open>print\<close> statement of the modelled functions.\<close>

datatype event =
    Processing_diagram pystr
  | Error_during_compression error
  | Could_not_find_included_file error error
  | Not_in_primary_location pystr
  | Not_in_secondary_location pystr
  | Could_not_find_include error
  | Converting pystr
  | Converting_Locally
  | Converting_with_Server
  | Formatting_successful
  | Error_formatting error
  | Making_request pystr
  | Response_status int
  | Wrong_response_status pystr int
  | Server_error pystr error
  | Saving_output pystr
  | File_saved
  | Error_saving error
  | Error_pretty_printing error

text \<open>
  The world the plugin runs in: the file system, the store of Python list objects with
  its next free address, what was printed, and the descriptor object being processed.
\<close>

record world =
  fs :: "pystr \<rightharpoonup> fs_entry"
  lists :: "nat \<Rightarrow> pystr list"
  fresh :: nat
  stdout :: "event list"
  diagram :: PuElement

text \<open>
  What the plugin calls outside this repository: \<open>pathlib\<close>, \<open>zlib\<close>, \<open>httplib2\<close>,
  \<open>lxml\<close>, the PlantUML executable, \<open>tempfile\<close>, the clock stamping written files,
  and the interpreter's recursion limit.
\<close>

record os_env =
  path_join :: "pystr \<Rightarrow> pystr \<Rightarrow> pystr"
  path_resolve :: "pystr \<Rightarrow> pystr"
  path_parents :: "pystr \<Rightarrow> pystr list"
  zlib_compress :: "byte list \<Rightarrow> error + byte list"
  http_request :: "bool \<Rightarrow> pystr \<Rightarrow> error + (int \<times> byte list)"
  etree_pretty :: "pystr \<Rightarrow> error + pystr"
  plantuml_call :: "pystr list \<Rightarrow> (pystr \<rightharpoonup> fs_entry) \<Rightarrow> error + (pystr \<times> pystr) list"
  temp_puml_path :: pystr
  temp_dir_name :: pystr
  clock :: mtime
  recursion_limit :: nat

definition print :: "event \<Rightarrow> world \<Rightarrow> world" where
  "print e w = w\<lparr>stdout := stdout w @ [e]\<rparr>"

section \<open>Strings\<close>

text \<open>
  \<open>str.isspace\<close> on one code point; \<open>str.strip\<close>, \<open>str.split\<close> without separator and
  \<open>\s\<close> in a \<open>str\<close> pattern all use it.
\<close>

definition isspace :: "nat \<Rightarrow> bool" where
  "isspace c \<longleftrightarrow>
     (9 \<le> c \<and> c \<le> 13) \<or> (28 \<le> c \<and> c \<le> 32) \<or> c = 133 \<or> c = 160 \<or> c = 5760 \<or>
     (8192 \<le> c \<and> c \<le> 8202) \<or> c = 8232 \<or> c = 8233 \<or> c = 8239 \<or> c = 8287 \<or> c = 12288"

definition lstrip :: "pystr \<Rightarrow> pystr" where
  "lstrip s = dropWhile isspace s"

definition rstrip :: "pystr \<Rightarrow> pystr" where
  "rstrip s = rev (dropWhile isspace (rev s))"

definition strip :: "pystr \<Rightarrow> pystr" where
  "strip s = rstrip (lstrip s)"

definition startswith :: "'a list \<Rightarrow> 'a list \<Rightarrow> bool" where
  "startswith s p \<longleftrightarrow> take (length p) s = p"

definition endswith :: "'a list \<Rightarrow> 'a list \<Rightarrow> bool" where
  "endswith s p \<longleftrightarrow> length p \<le> length s \<and> drop (length s - length p) s = p"

text \<open>\<open>s.split(c)\<close> for a one-character separator: never empty.\<close>

fun split_on :: "nat \<Rightarrow> pystr \<Rightarrow> pystr list" where
  "split_on c [] = [[]]"
| "split_on c (x # xs) =
     (if x = c then [] # split_on c xs
      else case split_on c xs of [] \<Rightarrow> [[x]] | p # ps \<Rightarrow> (x # p) # ps)"

text \<open>\<open>s.split()\<close> and \<open>s.rsplit()\<close> with no argument: the whitespace-separated words.\<close>

fun split_blank :: "pystr \<Rightarrow> pystr list" where
  "split_blank [] = [[]]"
| "split_blank (x # xs) =
     (if isspace x then [] # split_blank xs
      else case split_blank xs of [] \<Rightarrow> [[x]] | p # ps \<Rightarrow> (x # p) # ps)"

definition split_ws :: "pystr \<Rightarrow> pystr list" where
  "split_ws s = filter (\<lambda>p. p \<noteq> []) (split_blank s)"

text \<open>\<open>s.split(maxsplit=1)\<close>: the first word and, if any, the rest after the blanks.\<close>

definition split_max1 :: "pystr \<Rightarrow> pystr list" where
  "split_max1 s =
     (let t = lstrip s; a = takeWhile (\<lambda>c. \<not> isspace c) t;
          r = lstrip (dropWhile (\<lambda>c. \<not> isspace c) t)
      in if t = [] then [] else if r = [] then [a] else [a, r])"

text \<open>\<open>s.replace(old, new)\<close>: all occurrences, left to right, not overlapping.\<close>

fun replace_from :: "pystr \<Rightarrow> pystr \<Rightarrow> pystr \<Rightarrow> pystr" where
  "replace_from old new [] = []"
| "replace_from old new (x # xs) =
     (if old \<noteq> [] \<and> take (length old) (x # xs) = old
      then new @ replace_from old new (drop (length old) (x # xs))
      else x # replace_from old new xs)"

definition replace :: "pystr \<Rightarrow> pystr \<Rightarrow> pystr \<Rightarrow> pystr" where
  "replace s old new =
     (if old = [] then new @ concat (map (\<lambda>c. c # new) s) else replace_from old new s)"

text \<open>\<open>s.rfind(".")\<close>: the last index of the character, or -1.\<close>

definition rfind :: "pystr \<Rightarrow> nat \<Rightarrow> int" where
  "rfind s c =
     (case dropWhile (\<lambda>x. x \<noteq> c) (rev s) of
        [] \<Rightarrow> - 1
      | _ # r \<Rightarrow> int (length r))"

text \<open>
  \<open>re.match(r"^KEYWORD\s+\S+\s*$", line)\<close>: the keyword, at least one blank, at least
  one non-blank, then only blanks. \<open>\s\<close> and \<open>\S\<close> are complementary, so the match is
  determined without backtracking.
\<close>

definition re_directive :: "pystr \<Rightarrow> pystr \<Rightarrow> bool" where
  "re_directive keyword line \<longleftrightarrow>
     startswith line keyword \<and>
     (let r = drop (length keyword) line;
          r1 = dropWhile isspace r;
          r2 = dropWhile (\<lambda>c. \<not> isspace c) r1
      in r1 \<noteq> r \<and> r2 \<noteq> r1 \<and> list_all isspace r2)"

text \<open>
  \<open>re.match(r"^!startsub\s+" + re.escape(name) + r"\s*$", line)\<close>, for a name without
  blanks (it is a piece of a \<open>\S+\<close> match).
\<close>

definition re_startsub :: "pystr \<Rightarrow> pystr \<Rightarrow> bool" where
  "re_startsub name line \<longleftrightarrow>
     startswith line (py ''!startsub'') \<and>
     (let r = drop 9 line; r1 = dropWhile isspace r
      in r1 \<noteq> r \<and> startswith r1 name \<and> list_all isspace (drop (length name) r1))"

text \<open>\<open>re.match(r"^KEYWORD\s*$", line)\<close>.\<close>

definition re_keyword_only :: "pystr \<Rightarrow> pystr \<Rightarrow> bool" where
  "re_keyword_only keyword line \<longleftrightarrow>
     startswith line keyword \<and> list_all isspace (drop (length keyword) line)"

section \<open>Files\<close>

text \<open>
  Text mode reading: universal newlines, then \<open>readlines()\<close> keeps each line's
  terminator.
\<close>

fun translate_newlines :: "pystr \<Rightarrow> pystr" where
  "translate_newlines [] = []"
| "translate_newlines [x] = (if x = 13 then [10] else [x])"
| "translate_newlines (x # y # xs) =
     (if x = 13 \<and> y = 10 then 10 # translate_newlines xs
      else if x = 13 then 10 # translate_newlines (y # xs)
      else x # translate_newlines (y # xs))"

fun keepends :: "pystr \<Rightarrow> pystr list" where
  "keepends [] = []"
| "keepends (x # xs) =
     (if x = 10 then [10] # keepends xs
      else case keepends xs of [] \<Rightarrow> [[x]] | l # ls \<Rightarrow> (x # l) # ls)"

definition readlines :: "pystr \<Rightarrow> pystr list" where
  "readlines content = keepends (translate_newlines content)"

definition path_exists :: "world \<Rightarrow> pystr \<Rightarrow> bool" where
  "path_exists w p \<longleftrightarrow> fs w p \<noteq> None"

definition stat_or_zero :: "world \<Rightarrow> pystr \<Rightarrow> mtime" where
  "stat_or_zero w p = (case fs w p of None \<Rightarrow> 0 | Some e \<Rightarrow> st_mtime e)"

definition open_rt :: "world \<Rightarrow> pystr \<Rightarrow> error + pystr" where
  "open_rt w p =
     (case fs w p of
        None \<Rightarrow> Inl (FileNotFoundError p)
      | Some (Dir t) \<Rightarrow> Inl (IsADirectoryError p)
      | Some (File t c) \<Rightarrow> Inr c)"

text \<open>\<open>Path(p).parent\<close>: the first of the parents, and the path itself at a root.\<close>

definition path_parent :: "os_env \<Rightarrow> pystr \<Rightarrow> pystr" where
  "path_parent env p = (case path_parents env p of [] \<Rightarrow> p | q # _ \<Rightarrow> q)"

text \<open>
  \<open>Path(p).mkdir(parents=True, exist_ok=True)\<close>: the missing ancestors are created
  from the outermost one; a regular file in the way is an error.
\<close>

fun mkdir_each :: "os_env \<Rightarrow> pystr list \<Rightarrow> world \<Rightarrow> error + world" where
  "mkdir_each env [] w = Inr w"
| "mkdir_each env (p # ps) w =
     (case fs w p of
        None \<Rightarrow> mkdir_each env ps (w\<lparr>fs := (fs w)(p \<mapsto> Dir (clock env))\<rparr>)
      | Some (Dir t) \<Rightarrow> mkdir_each env ps w
      | Some (File t c) \<Rightarrow>
          Inl (if ps = [] then FileExistsError p else NotADirectoryError p))"

definition mkdir_parents :: "os_env \<Rightarrow> pystr \<Rightarrow> world \<Rightarrow> error + world" where
  "mkdir_parents env p w = mkdir_each env (rev (path_parents env p) @ [p]) w"

text \<open>Allocation of a new Python list object.\<close>

definition new_list :: "pystr list \<Rightarrow> world \<Rightarrow> nat \<times> world" where
  "new_list xs w = (fresh w, w\<lparr>lists := (lists w)(fresh w := xs), fresh := Suc (fresh w)\<rparr>)"

section \<open>Staleness\<close>

text \<open>
  \<open>_build_mtimes\<close>: the two output times come from \<open>stat\<close>, and are 0 when \<open>stat\<close>
  raises (no such file); the source time is read without a handler, so a missing source
  raises. The include time is reset to 0.
\<close>

definition build_mtimes :: "os_env \<Rightarrow> world \<Rightarrow> (error + unit) \<times> world" where
  "build_mtimes env w =
     (let d = diagram w;
          d1 = d\<lparr>img_time := stat_or_zero w (out_file d)\<rparr>;
          d2 = d1\<lparr>img_time_dark := stat_or_zero w (out_file_dark d1)\<rparr>;
          src = path_join env (directory d2) (file_name d2)
      in case fs w src of
           None \<Rightarrow> (Inl (FileNotFoundError src), w\<lparr>diagram := d2\<rparr>)
         | Some e \<Rightarrow> (Inr (), w\<lparr>diagram := d2\<lparr>src_time := st_mtime e, inc_time := 0\<rparr>\<rparr>))"

text \<open>The staleness test at the head of \<open>_convert\<close>.\<close>

definition needs_conversion :: "PuElement \<Rightarrow> bool \<Rightarrow> bool" where
  "needs_conversion d dark_mode =
     (if \<not> dark_mode
      then img_time d < src_time d \<or> inc_time d > img_time d
      else img_time_dark d < src_time d \<or> inc_time d > img_time_dark d)"

section \<open>Include resolution\<close>

text \<open>\<open>preprocess_includes\<close>: the indices and stripped texts of the include lines.\<close>

definition preprocess_includes :: "pystr list \<Rightarrow> (nat \<times> pystr) list" where
  "preprocess_includes lines =
     filter (\<lambda>(i, line). startswith line (py ''!include''))
       (List.enumerate 0 (map strip lines))"

text \<open>
  The update of \<open>diagram.inc_time\<close> shared by \<open>_read_incl_line_file\<close> and
  \<open>_read_incl_sub\<close>: \<open>stat\<close> with 0 on failure, then the maximum.
\<close>

definition note_inc_time :: "pystr \<Rightarrow> world \<Rightarrow> world" where
  "note_inc_time inc_file_abs w =
     (let local_inc_time = stat_or_zero w inc_file_abs
      in if local_inc_time > inc_time (diagram w)
         then w\<lparr>diagram := (diagram w)\<lparr>inc_time := local_inc_time\<rparr>\<rparr>
         else w)"

text \<open>
  The type of \<open>_readFileRecursively\<close> as the functions below call it: the list object,
  the directory and the dark-mode flag.
\<close>

type_synonym recursive_reader =
  "nat \<Rightarrow> pystr \<Rightarrow> bool \<Rightarrow> world \<Rightarrow> (error + pystr) \<times> world"

text \<open>\<open>_read_incl_line_file\<close>; the text passed in as \<open>temp_file\<close> is overwritten.\<close>

definition read_incl_line_file ::
  "recursive_reader \<Rightarrow> os_env \<Rightarrow> pystr \<Rightarrow> bool \<Rightarrow> pystr \<Rightarrow> world \<Rightarrow> (error + pystr) \<times> world" where
  "read_incl_line_file rec env temp_file dark_mode inc_file_abs w =
     (let w1 = note_inc_time inc_file_abs w
      in case open_rt w1 inc_file_abs of
           Inl e \<Rightarrow> (Inl e, w1)
         | Inr content \<Rightarrow>
             (let (lines, w2) = new_list (readlines content) w1
              in rec lines (path_resolve env (path_parent env inc_file_abs)) dark_mode w2))"

text \<open>
  The loop of \<open>_read_incl_sub\<close> over the stripped lines of the included file.
\<close>

fun extract_sub :: "pystr \<Rightarrow> bool \<Rightarrow> pystr list \<Rightarrow> pystr list" where
  "extract_sub name add_following [] = []"
| "extract_sub name add_following (l # ls) =
     (let line = strip l
      in if re_startsub name line then extract_sub name True ls
         else if re_keyword_only (py ''!endsub'') line \<or> re_keyword_only (py ''@enduml'') line
         then extract_sub name False ls
         else if add_following then line # extract_sub name True ls
         else extract_sub name add_following ls)"

text \<open>
  \<open>_read_incl_sub\<close>. After the loop it calls \<open>self._readFileRecursively\<close> with five
  arguments (\<open>temp_sub, temp_file, diagram, directory, dark_mode\<close>); the method takes
  four, so the call raises \<open>TypeError\<close> and the extracted lines are dropped.
\<close>

definition read_incl_sub ::
  "os_env \<Rightarrow> pystr \<Rightarrow> bool \<Rightarrow> pystr \<Rightarrow> pystr \<Rightarrow> world \<Rightarrow> (error + pystr) \<times> world" where
  "read_incl_sub env temp_file dark_mode inc_file_abs inc_sub_name w =
     (let w1 = note_inc_time inc_file_abs w;
          (temp_sub, w2) = new_list [] w1
      in case open_rt w2 inc_file_abs of
           Inl e \<Rightarrow> (Inl e, w2)
         | Inr content \<Rightarrow>
             (Inl TypeError,
              w2\<lparr>lists := (lists w2)
                      (temp_sub := extract_sub inc_sub_name False (readlines content))\<rparr>))"

text \<open>
  The handler \<open>except FileNotFoundError\<close> of the \<open>!include\<close> branch: the exception is
  printed and \<open>temp_file\<close> is returned as it was.
\<close>

definition except_FileNotFoundError ::
  "pystr \<Rightarrow> (error + pystr) \<times> world \<Rightarrow> (error + pystr) \<times> world" where
  "except_FileNotFoundError temp_file r =
     (case r of
        (Inl (FileNotFoundError p), w) \<Rightarrow>
          (Inr temp_file, print (Could_not_find_include (FileNotFoundError p)) w)
      | _ \<Rightarrow> r)"

text \<open>
  \<open>_readIncludeLine\<close>. The three forms are tried in the source's order.
\<close>

definition readIncludeLine ::
  "recursive_reader \<Rightarrow> os_env \<Rightarrow> config \<Rightarrow> pystr \<Rightarrow> pystr \<Rightarrow> pystr \<Rightarrow> bool \<Rightarrow> world
     \<Rightarrow> (error + pystr) \<times> world" where
  "readIncludeLine rec env cfg line temp_file directory' dark_mode w =
     (if re_directive (py ''!includeurl'') line then (Inr (temp_file @ line), w)
      else if re_directive (py ''!includesub'') line then
        (let parts = split_on 33 (strip (drop 11 line))
         in if length parts = 2 then
              (let inc_file = (if dark_mode
                               then replace (parts ! 0) (theme_light cfg) (theme_dark cfg)
                               else parts ! 0);
                   sub_name = parts ! 1
               in case read_incl_sub env temp_file dark_mode
                         (path_resolve env (path_join env directory' inc_file)) sub_name w of
                    (Inr t, w1) \<Rightarrow> (Inr t, w1)
                  | (Inl e1, w1) \<Rightarrow>
                      (case read_incl_sub env temp_file dark_mode
                              (path_resolve env (path_join env (root_dir (diagram w1)) inc_file))
                              sub_name w1 of
                         (Inr t, w2) \<Rightarrow> (Inr t, w2)
                       | (Inl e2, w2) \<Rightarrow>
                           (Inl e2, print (Could_not_find_included_file e1 e2) w2)))
            else (Inl (PyException
                    (py ''Invalid !includesub syntax. Expected: !includesub <filepath>!<sub_name>'')),
                  w))
      else if re_directive (py ''!include'') line then
        (let inc_file = (if dark_mode
                         then replace (rstrip (drop 9 line)) (theme_light cfg) (theme_dark cfg)
                         else rstrip (drop 9 line))
         in if startswith inc_file (py ''http'') \<or> startswith inc_file (py ''<'')
            then (Inr (temp_file @ line), w)
            else
              (let inc_file_abs = path_resolve env (path_join env directory' inc_file);
                   r = (if path_exists w inc_file_abs
                        then read_incl_line_file rec env temp_file dark_mode inc_file_abs w
                        else
                          (let w1 = print (Not_in_primary_location inc_file_abs) w;
                               inc_file_abs_alt =
                                 path_resolve env (path_join env (root_dir (diagram w1)) inc_file)
                           in if path_exists w1 inc_file_abs_alt
                              then read_incl_line_file rec env temp_file dark_mode
                                     inc_file_abs_alt w1
                              else (Inl (PyException
                                           (py ''Include could not be resolved: '' @ line)),
                                    print (Not_in_secondary_location inc_file_abs_alt) w1)))
               in except_FileNotFoundError temp_file r))
      else (Inl (PyException (py ''Unknown include type: '' @ line)), w))"

text \<open>
  \<open>process_includes\<close>: each include line is resolved with an empty \<open>temp_file\<close> and
  stored into the list object at its index.
\<close>

fun process_includes ::
  "recursive_reader \<Rightarrow> os_env \<Rightarrow> config \<Rightarrow> (nat \<times> pystr) list \<Rightarrow> nat \<Rightarrow> pystr \<Rightarrow> bool \<Rightarrow> world
     \<Rightarrow> (error + unit) \<times> world" where
  "process_includes rec env cfg [] lines directory' dark_mode w = (Inr (), w)"
| "process_includes rec env cfg ((i, line) # rest) lines directory' dark_mode w =
     (case readIncludeLine rec env cfg line [] directory' dark_mode w of
        (Inl e, w1) \<Rightarrow> (Inl e, w1)
      | (Inr include_content, w1) \<Rightarrow>
          process_includes rec env cfg rest lines directory' dark_mode
            (w1\<lparr>lists := (lists w1)(lines := (lists w1 lines)[i := include_content])\<rparr>))"

text \<open>
  \<open>_readFileRecursively\<close>. The first argument bounds the depth of the nested calls,
  as the interpreter's recursion limit does: beyond it \<open>RecursionError\<close> is raised.
  \<open>_readFile\<close> makes the outermost call, which always runs.
\<close>

primrec readFileRecursively ::
  "nat \<Rightarrow> os_env \<Rightarrow> config \<Rightarrow> nat \<Rightarrow> pystr \<Rightarrow> bool \<Rightarrow> world \<Rightarrow> (error + pystr) \<times> world" where
  "readFileRecursively 0 env cfg lines directory' dark_mode w = (Inl RecursionError, w)"
| "readFileRecursively (Suc depth) env cfg lines directory' dark_mode w =
     (let include_lines = preprocess_includes (lists w lines)
      in case process_includes (readFileRecursively depth env cfg) env cfg include_lines lines
                directory' dark_mode w of
           (Inl e, w1) \<Rightarrow> (Inl e, w1)
         | (Inr u, w1) \<Rightarrow> (Inr (concat (lists w1 lines)), w1))"

section \<open>The text encoder\<close>

text \<open>\<open>str.encode("utf-8")\<close>: lone surrogates cannot be encoded.\<close>

definition utf8_encode_char :: "nat \<Rightarrow> nat list option" where
  "utf8_encode_char c =
     (if c < 128 then Some [c]
      else if c < 2048 then Some [192 + c div 64, 128 + c mod 64]
      else if c < 65536 then
        (if 55296 \<le> c \<and> c \<le> 57343 then None
         else Some [224 + c div 4096, 128 + c div 64 mod 64, 128 + c mod 64])
      else if c < 1114112 then
        Some [240 + c div 262144, 128 + c div 4096 mod 64, 128 + c div 64 mod 64,
              128 + c mod 64]
      else None)"

fun utf8_encode_nat :: "pystr \<Rightarrow> nat list option" where
  "utf8_encode_nat [] = Some []"
| "utf8_encode_nat (c # cs) =
     (case utf8_encode_char c of
        None \<Rightarrow> None
      | Some bs \<Rightarrow> map_option ((@) bs) (utf8_encode_nat cs))"

definition utf8_encode :: "pystr \<Rightarrow> error + byte list" where
  "utf8_encode s =
     (case utf8_encode_nat s of None \<Rightarrow> Inl UnicodeError | Some bs \<Rightarrow> Inr (map of_nat bs))"

text \<open>
  \<open>bytes.decode("utf-8")\<close>, strict: no overlong forms, no surrogates, nothing above
  U+10FFFF.
\<close>

definition is_cont :: "nat \<Rightarrow> bool" where
  "is_cont b \<longleftrightarrow> 128 \<le> b \<and> b < 192"

fun utf8_decode_nat :: "nat list \<Rightarrow> pystr option" where
  "utf8_decode_nat [] = Some []"
| "utf8_decode_nat (b0 # bs) =
     (if b0 < 128 then map_option ((#) b0) (utf8_decode_nat bs)
      else if 194 \<le> b0 \<and> b0 < 224 then
        (case bs of
           b1 # r \<Rightarrow>
             (if is_cont b1
              then map_option ((#) ((b0 - 192) * 64 + (b1 - 128))) (utf8_decode_nat r)
              else None)
         | _ \<Rightarrow> None)
      else if 224 \<le> b0 \<and> b0 < 240 then
        (case bs of
           b1 # b2 # r \<Rightarrow>
             (let c = (b0 - 224) * 4096 + (b1 - 128) * 64 + (b2 - 128)
              in if is_cont b1 \<and> is_cont b2 \<and> 2048 \<le> c \<and> \<not> (55296 \<le> c \<and> c \<le> 57343)
                 then map_option ((#) c) (utf8_decode_nat r)
                 else None)
         | _ \<Rightarrow> None)
      else if 240 \<le> b0 \<and> b0 < 245 then
        (case bs of
           b1 # b2 # b3 # r \<Rightarrow>
             (let c = (b0 - 240) * 262144 + (b1 - 128) * 4096 + (b2 - 128) * 64 + (b3 - 128)
              in if is_cont b1 \<and> is_cont b2 \<and> is_cont b3 \<and> 65536 \<le> c \<and> c < 1114112
                 then map_option ((#) c) (utf8_decode_nat r)
                 else None)
         | _ \<Rightarrow> None)
      else None)"

definition utf8_decode :: "byte list \<Rightarrow> error + pystr" where
  "utf8_decode bs =
     (case utf8_decode_nat (map unat bs) of None \<Rightarrow> Inl UnicodeError | Some s \<Rightarrow> Inr s)"

text \<open>The two alphabets and the translation table built from them at import time.\<close>

definition digits :: pystr where
  "digits = py ''0123456789''"

definition ascii_uppercase :: pystr where
  "ascii_uppercase = py ''ABCDEFGHIJKLMNOPQRSTUVWXYZ''"

definition ascii_lowercase :: pystr where
  "ascii_lowercase = py ''abcdefghijklmnopqrstuvwxyz''"

definition plantuml_alphabet :: pystr where
  "plantuml_alphabet = digits @ ascii_uppercase @ ascii_lowercase @ py ''-_''"

definition base64_alphabet :: pystr where
  "base64_alphabet = ascii_uppercase @ ascii_lowercase @ digits @ py ''+/''"

text \<open>
  \<open>bytes.maketrans(frm, to)\<close> as the function that \<open>bytes.translate\<close> applies to each
  byte: the identity outside \<open>frm\<close>, the last entry winning.
\<close>

definition maketrans :: "byte list \<Rightarrow> byte list \<Rightarrow> byte \<Rightarrow> byte" where
  "maketrans frm to b = (case map_of (rev (zip frm to)) b of None \<Rightarrow> b | Some t \<Rightarrow> t)"

definition encoded :: "pystr \<Rightarrow> byte list" where
  "encoded s = (case utf8_encode s of Inl e \<Rightarrow> [] | Inr bs \<Rightarrow> bs)"

definition b64_to_plantuml :: "byte \<Rightarrow> byte" where
  "b64_to_plantuml = maketrans (encoded base64_alphabet) (encoded plantuml_alphabet)"

text \<open>\<open>base64.b64encode\<close>: three bytes give four characters, with \<open>=\<close> padding.\<close>

definition b64_char :: "nat \<Rightarrow> byte" where
  "b64_char i = of_nat (base64_alphabet ! i)"

fun b64encode :: "byte list \<Rightarrow> byte list" where
  "b64encode [] = []"
| "b64encode [a] =
     (let n = unat a * 65536
      in [b64_char (n div 262144), b64_char (n div 4096 mod 64), 61, 61])"
| "b64encode [a, b] =
     (let n = unat a * 65536 + unat b * 256
      in [b64_char (n div 262144), b64_char (n div 4096 mod 64), b64_char (n div 64 mod 64),
          61])"
| "b64encode (a # b # c # rest) =
     (let n = unat a * 65536 + unat b * 256 + unat c
      in [b64_char (n div 262144), b64_char (n div 4096 mod 64), b64_char (n div 64 mod 64),
          b64_char (n mod 64)] @ b64encode rest)"

text \<open>
  The \<open>try\<close> block of \<open>_readFile\<close>: encode, compress, cut \<open>[2:-4]\<close>, base64, translate,
  decode.
\<close>

definition plantuml_encode :: "os_env \<Rightarrow> pystr \<Rightarrow> error + pystr" where
  "plantuml_encode env temp_file =
     (case utf8_encode temp_file of
        Inl e \<Rightarrow> Inl e
      | Inr raw \<Rightarrow>
          (case zlib_compress env raw of
             Inl e \<Rightarrow> Inl e
           | Inr compressed_str \<Rightarrow>
               (let compressed_string =
                      take (length compressed_str - 4 - 2) (drop 2 compressed_str)
                in utf8_decode (map b64_to_plantuml (b64encode compressed_string)))))"

text \<open>\<open>_readFile\<close>: flattening works on a copy of the source lines.\<close>

definition readFile :: "os_env \<Rightarrow> config \<Rightarrow> bool \<Rightarrow> world \<Rightarrow> (error + unit) \<times> world" where
  "readFile env cfg dark_mode w =
     (let w0 = print (Processing_diagram (file_name (diagram w))) w;
          (lines, w1) = new_list (lists w0 (src_file (diagram w0))) w0
      in case readFileRecursively (Suc (recursion_limit env)) env cfg lines
                (directory (diagram w1)) dark_mode w1 of
           (Inl e, w2) \<Rightarrow> (Inl e, w2)
         | (Inr temp_file, w2) \<Rightarrow>
             (case plantuml_encode env temp_file of
                Inr token \<Rightarrow>
                  (Inr (), w2\<lparr>diagram := (diagram w2)\<lparr>b64encoded := token,
                                                         concat_file := temp_file\<rparr>\<rparr>)
              | Inl e \<Rightarrow>
                  (let w3 = print (Error_during_compression e) w2
                   in (Inr (), w3\<lparr>diagram := (diagram w3)\<lparr>b64encoded := []\<rparr>\<rparr>))))"

section \<open>Rendering\<close>

text \<open>
  \<open>open(p, "w", encoding="utf-8")\<close> followed by \<open>write\<close>: the parent must be a
  directory and the path must not be one; the file is created before the text is
  encoded.
\<close>

definition write_text :: "os_env \<Rightarrow> pystr \<Rightarrow> pystr \<Rightarrow> world \<Rightarrow> (error + unit) \<times> world" where
  "write_text env p content w =
     (case fs w (path_parent env p) of
        None \<Rightarrow> (Inl (FileNotFoundError p), w)
      | Some (File t c) \<Rightarrow> (Inl (NotADirectoryError p), w)
      | Some (Dir t) \<Rightarrow>
          (case fs w p of
             Some (Dir t') \<Rightarrow> (Inl (IsADirectoryError p), w)
           | _ \<Rightarrow>
               (case utf8_encode content of
                  Inl e \<Rightarrow> (Inl e, w\<lparr>fs := (fs w)(p \<mapsto> File (clock env) [])\<rparr>)
                | Inr bs \<Rightarrow> (Inr (), w\<lparr>fs := (fs w)(p \<mapsto> File (clock env) content)\<rparr>))))"

text \<open>
  \<open>shutil.move(src, dst)\<close> of a generated file (name and content): into \<open>dst\<close> when it
  is a directory, onto \<open>dst\<close> otherwise.
\<close>

definition move_file :: "os_env \<Rightarrow> pystr \<times> pystr \<Rightarrow> pystr \<Rightarrow> world \<Rightarrow> (error + unit) \<times> world" where
  "move_file env generated dst w =
     (case fs w dst of
        Some (Dir t) \<Rightarrow>
          (let real_dst = path_join env dst (fst generated)
           in if path_exists w real_dst
              then (Inl (ExternalError (py ''Destination path already exists'')), w)
              else (Inr (), w\<lparr>fs := (fs w)(real_dst \<mapsto> File (clock env) (snd generated))\<rparr>))
      | _ \<Rightarrow>
          (case fs w (path_parent env dst) of
             Some (Dir t) \<Rightarrow>
               (Inr (), w\<lparr>fs := (fs w)(dst \<mapsto> File (clock env) (snd generated))\<rparr>)
           | Some (File t c) \<Rightarrow> (Inl (NotADirectoryError dst), w)
           | None \<Rightarrow> (Inl (FileNotFoundError dst), w)))"

text \<open>\<open>_pretty_print_svg\<close>: any failure of the pretty-printer gives the raw content.\<close>

definition pretty_print_svg :: "os_env \<Rightarrow> pystr \<Rightarrow> world \<Rightarrow> pystr \<times> world" where
  "pretty_print_svg env svg_content w =
     (case etree_pretty env svg_content of
        Inr pretty_xml \<Rightarrow> (pretty_xml, w)
      | Inl e \<Rightarrow> (svg_content, print (Error_pretty_printing e) w))"

text \<open>
  \<open>content.decode("utf-8")\<close> where \<open>content\<close> is \<open>bytes\<close> or \<open>None\<close>; \<open>None\<close> has no
  such attribute.
\<close>

definition decode_content :: "byte list option \<Rightarrow> error + pystr" where
  "decode_content content =
     (case content of None \<Rightarrow> Inl AttributeError | Some bs \<Rightarrow> utf8_decode bs)"

text \<open>
  The block "Format the SVG content if the output format is SVG", which \<open>_call_server\<close>
  and the server branch of \<open>_convert\<close> both contain. \<open>_pretty_print_svg\<close> does not
  raise, so the handler is entered only when decoding fails, and its own decoding, of
  the same content, fails again.
\<close>

definition format_svg :: "os_env \<Rightarrow> config \<Rightarrow> byte list option \<Rightarrow> world \<Rightarrow> (error + pystr) \<times> world" where
  "format_svg env cfg content w =
     (if output_format cfg = py ''svg'' then
        (case decode_content content of
           Inr text \<Rightarrow>
             (let (formatted_svg, w1) = pretty_print_svg env text w
              in (Inr formatted_svg, print Formatting_successful w1))
         | Inl e \<Rightarrow> (decode_content content, print (Error_formatting e) w))
      else (decode_content content, w))"

text \<open>
  \<open>_call_server\<close>. No path of it returns a value: the result is \<open>None\<close> after a
  response other than 200 and after a saved file alike.
\<close>

definition call_server ::
  "os_env \<Rightarrow> config \<Rightarrow> pystr \<Rightarrow> world \<Rightarrow> (error + byte list option) \<times> world" where
  "call_server env cfg out_file' w =
     (let d = diagram w;
          url = server cfg @ py ''/'' @ output_format cfg @ py ''/'' @ b64encoded d;
          w1 = print (Making_request url) w
      in case http_request env (disable_ssl_certificate_validation cfg) url of
           Inl err \<Rightarrow> (Inl err, print (Server_error (file_name d) err) w1)
         | Inr (status, content) \<Rightarrow>
             (let w2 = print (Response_status status) w1
              in if status \<noteq> 200
                 then (Inr None, print (Wrong_response_status (file_name d) status) w2)
                 else
                   (case mkdir_parents env (out_dir d) w2 of
                      Inl e \<Rightarrow> (Inl e, w2)
                    | Inr w3 \<Rightarrow>
                        (case format_svg env cfg (Some content) w3 of
                           (Inl e, w4) \<Rightarrow> (Inl e, w4)
                         | (Inr formatted_svg, w4) \<Rightarrow>
                             (let output_path = path_join env (out_dir d) out_file';
                                  w5 = print (Saving_output output_path) w4
                              in case write_text env output_path formatted_svg w5 of
                                   (Inl e, w6) \<Rightarrow> (Inl e, print (Error_saving e) w6)
                                 | (Inr u, w6) \<Rightarrow> (Inr None, print File_saved w6))))))"

text \<open>The local branch of \<open>_convert\<close>.\<close>

definition convert_local ::
  "os_env \<Rightarrow> config \<Rightarrow> bool \<Rightarrow> pystr \<Rightarrow> world \<Rightarrow> (error + unit) \<times> world" where
  "convert_local env cfg dark_mode diagramFile w =
     (let d = diagram w;
          cmd_args = split_ws (bin_path cfg) @ [py ''-t'' @ output_format cfg];
          (r, w1) = (if theme_enabled cfg
                     then write_text env (temp_puml_path env) (concat_file d) w
                     else (Inr (), w))
      in case r of
           Inl e \<Rightarrow> (Inl e, w1)
         | Inr u \<Rightarrow>
             (let cmd_args1 = cmd_args @ [if theme_enabled cfg then temp_puml_path env
                                           else diagramFile];
                  cmd_args2 = (if dark_mode then cmd_args1 @ [py ''-darkmode''] else cmd_args1);
                  cmd_args3 = cmd_args2 @ [py ''-o'', temp_dir_name env]
              in case plantuml_call env cmd_args3 (fs w1) of
                   Inl e \<Rightarrow> (Inl e, w1)
                 | Inr [] \<Rightarrow>
                     (Inl (RuntimeError (py ''No files were generated by PlantUML'')), w1)
                 | Inr (generated_file # others) \<Rightarrow>
                     (let output_file = (if dark_mode then out_file_dark d else out_file d)
                      in case move_file env generated_file output_file w1 of
                           (Inl e, w2) \<Rightarrow> (Inl e, w2)
                         | (Inr u', w2) \<Rightarrow>
                             (if output_format cfg = py ''svg'' then
                                (case open_rt w2 output_file of
                                   Inl e \<Rightarrow> (Inr (), print (Error_formatting e) w2)
                                 | Inr svg_content \<Rightarrow>
                                     (let (formatted_svg, w3) =
                                            pretty_print_svg env
                                              (translate_newlines svg_content) w2
                                      in case write_text env output_file formatted_svg w3 of
                                           (Inl e, w4) \<Rightarrow> (Inr (), print (Error_formatting e) w4)
                                         | (Inr u'', w4) \<Rightarrow>
                                             (Inr (), print Formatting_successful w4)))
                              else (Inr (), w2)))))"

text \<open>The server branch of \<open>_convert\<close>: it uses what \<open>_call_server\<close> returned.\<close>

definition convert_server :: "os_env \<Rightarrow> config \<Rightarrow> bool \<Rightarrow> world \<Rightarrow> (error + unit) \<times> world" where
  "convert_server env cfg dark_mode w =
     (let d = diagram w
      in case call_server env cfg (if dark_mode then out_file_dark d else out_file d) w of
           (Inl e, w1) \<Rightarrow> (Inl e, w1)
         | (Inr content, w1) \<Rightarrow>
             (case format_svg env cfg content w1 of
                (Inl e, w2) \<Rightarrow> (Inl e, w2)
              | (Inr formatted_svg, w2) \<Rightarrow>
                  write_text env (if dark_mode then out_file_dark d else out_file d)
                    formatted_svg w2))"

text \<open>\<open>_convert\<close>.\<close>

definition convert :: "os_env \<Rightarrow> config \<Rightarrow> bool \<Rightarrow> world \<Rightarrow> (error + unit) \<times> world" where
  "convert env cfg dark_mode w =
     (let d = diagram w;
          diagramFile = path_join env (directory d) (file_name d)
      in if needs_conversion d dark_mode then
           (let w1 = print (Converting diagramFile) w
            in if render cfg = py ''local''
               then convert_local env cfg dark_mode diagramFile (print Converting_Locally w1)
               else convert_server env cfg dark_mode (print Converting_with_Server w1))
         else (Inr (), w))"

section \<open>The build hook\<close>

text \<open>\<open>PuElement.__init__\<close>; \<open>src_file\<close> is assigned before it is first read.\<close>

definition PuElement_init :: "pystr \<Rightarrow> pystr \<Rightarrow> PuElement" where
  "PuElement_init file' subdir =
     \<lparr>file_name = file', directory = subdir, out_dir = [], root_dir = [], img_time = 0,
      img_time_dark = 0, inc_time = 0, src_time = 0, out_file = [], out_file_dark = [],
      b64encoded = [], concat_file = [], src_file = 0\<rparr>"

text \<open>\<open>_file_matches_extension\<close>.\<close>

definition file_matches_extension :: "config \<Rightarrow> pystr \<Rightarrow> bool" where
  "file_matches_extension cfg file' \<longleftrightarrow>
     length (input_extensions cfg) = 0 \<or>
     list_ex (\<lambda>extension. endswith file' extension) (split_on 44 (input_extensions cfg))"

text \<open>
  \<open>_search_start_tag\<close>: the first line \<open>@startuml NAME\<close> names the outputs.
\<close>

fun search_start_tag :: "os_env \<Rightarrow> config \<Rightarrow> pystr \<Rightarrow> pystr list \<Rightarrow> (pystr \<times> pystr) option" where
  "search_start_tag env cfg outDir [] = None"
| "search_start_tag env cfg outDir (l # ls) =
     (let line = strip l
      in if startswith line (py ''@startuml'') then
           (case split_max1 line of
              [tag, out_filename] \<Rightarrow>
                Some (path_join env outDir (out_filename @ py ''.'' @ output_format cfg),
                      path_join env outDir (out_filename @ py ''_dark.'' @ output_format cfg))
            | _ \<Rightarrow> search_start_tag env cfg outDir ls)
         else search_start_tag env cfg outDir ls)"

text \<open>\<open>_build_out_filename\<close>: the source's name with the output extension.\<close>

definition build_out_filename :: "os_env \<Rightarrow> config \<Rightarrow> PuElement \<Rightarrow> PuElement" where
  "build_out_filename env cfg d =
     (let out_index = rfind (file_name d) 46;
          d1 = (if out_index > - 1
                then d\<lparr>out_file := take (nat (out_index + 1)) (file_name d) @ output_format cfg,
                       out_file_dark := take (nat out_index) (file_name d) @ py ''_dark.'' @
                                        output_format cfg\<rparr>
                else d)
      in d1\<lparr>out_file := path_join env (out_dir d1) (out_file d1),
            out_file_dark := path_join env (out_dir d1) (out_file_dark d1)\<rparr>)"

text \<open>
  The first half of the body of the innermost loop of \<open>on_pre_build\<close>, for one source
  file: given the root directory, the output directory that \<open>_get_out_directory\<close>
  computed, and the directory and name of the file, the descriptor is created, the
  source lines are read, the outputs are named and the modification times are taken.
\<close>

definition discover_diagram ::
  "os_env \<Rightarrow> config \<Rightarrow> pystr \<times> pystr \<times> pystr \<times> pystr \<Rightarrow> world \<Rightarrow> (error + unit) \<times> world" where
  "discover_diagram env cfg found w =
     (case found of (root_dir', out_dir', subdir, file') \<Rightarrow>
       (let d = (PuElement_init file' subdir)\<lparr>root_dir := root_dir', out_dir := out_dir'\<rparr>;
            w0 = w\<lparr>diagram := d\<rparr>
        in case open_rt w0 (path_join env (directory d) (file_name d)) of
             Inl e \<Rightarrow> (Inl e, w0)
           | Inr content \<Rightarrow>
               (let (lines, w1) = new_list (readlines content) w0;
                    d1 = (diagram w1)\<lparr>src_file := lines\<rparr>;
                    d2 = (case search_start_tag env cfg (out_dir d1) (lists w1 (src_file d1)) of
                            Some (normal, dark) \<Rightarrow> d1\<lparr>out_file := normal, out_file_dark := dark\<rparr>
                          | None \<Rightarrow> build_out_filename env cfg d1)
                in build_mtimes env (w1\<lparr>diagram := d2\<rparr>))))"

text \<open>
  The whole body: after the descriptor is made, \<open>_readFile\<close> and \<open>_convert\<close> run for
  the normal variant and then for the dark variant. Every call is made in the source's
  order; there is no test of \<open>theme_enabled\<close> around the second pass.
\<close>

definition process_diagram ::
  "os_env \<Rightarrow> config \<Rightarrow> pystr \<times> pystr \<times> pystr \<times> pystr \<Rightarrow> world \<Rightarrow> (error + unit) \<times> world" where
  "process_diagram env cfg found w =
     (case discover_diagram env cfg found w of
        (Inl e, w2) \<Rightarrow> (Inl e, w2)
      | (Inr u2, w2) \<Rightarrow>
          (case readFile env cfg False w2 of
             (Inl e, w3) \<Rightarrow> (Inl e, w3)
           | (Inr u3, w3) \<Rightarrow>
               (case convert env cfg False w3 of
                  (Inl e, w4) \<Rightarrow> (Inl e, w4)
                | (Inr u4, w4) \<Rightarrow>
                    (case readFile env cfg True w4 of
                       (Inl e, w5) \<Rightarrow> (Inl e, w5)
                     | (Inr u5, w5) \<Rightarrow> convert env cfg True w5))))"

text \<open>
  \<open>on_pre_build\<close> over the source files that the directory walk yields, in its order.
  No handler surrounds the body: the first exception leaves the loops and the hook.
\<close>

fun on_pre_build ::
  "os_env \<Rightarrow> config \<Rightarrow> (pystr \<times> pystr \<times> pystr \<times> pystr) list \<Rightarrow> world \<Rightarrow> (error + unit) \<times> world" where
  "on_pre_build env cfg [] w = (Inr (), w)"
| "on_pre_build env cfg (found # rest) w =
     (if file_matches_extension cfg (snd (snd (snd found))) then
        (case process_diagram env cfg found w of
           (Inl e, w1) \<Rightarrow> (Inl e, w1)
         | (Inr u, w1) \<Rightarrow> on_pre_build env cfg rest w1)
      else on_pre_build env cfg rest w)"

section \<open>Notions of the specification\<close>


section \<open>Invariants used in the proofs\<close>

text \<open>
  The events that \<open>_readFile\<close> prints when it starts, and how many of them a world has
  seen: one per call of \<open>_readFile\<close>.
\<close>

fun is_processing :: "event \<Rightarrow> bool" where
  "is_processing (Processing_diagram f) = True"
| "is_processing e = False"

definition processing_count :: "world \<Rightarrow> nat" where
  "processing_count w = length (filter is_processing (stdout w))"

text \<open>
  Three footprints of a step from \<open>w\<close> to \<open>w'\<close>. None of them lets the step print a
  \<open>Processing_diagram\<close> event or change which list the descriptor's \<open>src_file\<close> refers to.
  \<open>modifies_only lines\<close>: of the lists that existed in \<open>w\<close>, only the one at \<open>lines\<close> may
  have changed. \<open>keeps_lists\<close>: none of them has changed. \<open>same_store\<close>: the store and the
  descriptor are the same.
\<close>

definition modifies_only :: "nat \<Rightarrow> world \<Rightarrow> world \<Rightarrow> bool" where
  "modifies_only lines w w' \<longleftrightarrow>
     fresh w \<le> fresh w' \<and> src_file (diagram w') = src_file (diagram w) \<and>
     processing_count w' = processing_count w \<and>
     (\<forall>a. a < fresh w \<longrightarrow> a \<noteq> lines \<longrightarrow> lists w' a = lists w a)"

definition keeps_lists :: "world \<Rightarrow> world \<Rightarrow> bool" where
  "keeps_lists w w' \<longleftrightarrow>
     fresh w \<le> fresh w' \<and> src_file (diagram w') = src_file (diagram w) \<and>
     processing_count w' = processing_count w \<and>
     (\<forall>a. a < fresh w \<longrightarrow> lists w' a = lists w a)"

definition same_store :: "world \<Rightarrow> world \<Rightarrow> bool" where
  "same_store w w' \<longleftrightarrow>
     lists w' = lists w \<and> fresh w' = fresh w \<and> diagram w' = diagram w \<and>
     processing_count w' = processing_count w"

text \<open>A reader that, like \<open>_readFileRecursively\<close>, changes only the list it is given.\<close>

definition frame_ok :: "recursive_reader \<Rightarrow> bool" where
  "frame_ok rec \<longleftrightarrow> (\<forall>lines dir dark w. modifies_only lines w (snd (rec lines dir dark w)))"

section \<open>Example worlds\<close>

text \<open>
  A small POSIX-like environment, the plugin's default configuration, and worlds on
  which the theorems below are evaluated.
\<close>

definition posix_join :: "pystr \<Rightarrow> pystr \<Rightarrow> pystr" where
  "posix_join a b = (if startswith b (py ''/'') then b else a @ py ''/'' @ b)"

definition posix_dirname :: "pystr \<Rightarrow> pystr" where
  "posix_dirname p = rev (drop 1 (dropWhile (\<lambda>c. c \<noteq> 47) (rev p)))"

definition example_env :: os_env where
  "example_env =
     \<lparr>path_join = posix_join, path_resolve = (\<lambda>p. p), path_parents = (\<lambda>p. [posix_dirname p]),
      zlib_compress = (\<lambda>bs. Inl (ExternalError (py ''zlib''))),
      http_request = (\<lambda>insecure url. Inr (404, [])),
      etree_pretty = (\<lambda>s. Inr (s @ [10])),
      plantuml_call = (\<lambda>args files. Inr [(py ''a.svg'', py ''<svg/>'')]),
      temp_puml_path = py ''/tmp/t.puml'', temp_dir_name = py ''/tmp/d'',
      clock = 1000, recursion_limit = 100\<rparr>"

definition default_config :: config where
  "default_config =
     \<lparr>render = py ''server'', server = py ''https://www.plantuml.com/plantuml'',
      disable_ssl_certificate_validation = False, bin_path = py ''/usr/local/bin/plantuml'',
      output_format = py ''png'', allow_multiple_roots = False,
      diagram_root = py ''docs/diagrams'', output_folder = py ''out'', output_in_dir = False,
      input_folder = py ''src'', input_extensions = [], theme_enabled = False,
      theme_folder = py ''include/themes/'', theme_light = py ''light.puml'',
      theme_dark = py ''dark.puml'', prettify_svg = False\<rparr>"

definition empty_world :: world where
  "empty_world =
     \<lparr>fs = Map.empty, lists = (\<lambda>a. []), fresh = 0, stdout = [],
      diagram = PuElement_init [] []\<rparr>"

text \<open>A source file stamped with the epoch, and no output file yet.\<close>

definition epoch_world :: world where
  "epoch_world =
     empty_world
       \<lparr>fs := [py ''/r/src/a.puml'' \<mapsto> File 0 (py ''A->B'')],
        diagram := (PuElement_init (py ''a.puml'') (py ''/r/src''))
                     \<lparr>out_file := py ''/r/out/a.png'', out_file_dark := py ''/r/out/a_dark.png''\<rparr>\<rparr>"

text \<open>
  A diagram root \<open>/r\<close> with sources under \<open>/r/src\<close>: \<open>x.puml\<close> exists in the root only,
  \<open>s.puml\<close> with a \<open>!startsub X\<close> block in both places.
\<close>

definition include_world :: world where
  "include_world =
     empty_world
       \<lparr>fs := [py ''/r/src/a.puml'' \<mapsto> File 10 (py ''!include x.puml'' @ [10]),
               py ''/r/x.puml'' \<mapsto> File 20 (py ''B->C'' @ [10]),
               py ''/r/src/s.puml'' \<mapsto>
                 File 30 (py ''!startsub X'' @ [10] @ py ''A->B'' @ [10] @ py ''!endsub'' @ [10]),
               py ''/r/s.puml'' \<mapsto>
                 File 30 (py ''!startsub X'' @ [10] @ py ''A->B'' @ [10] @ py ''!endsub'' @ [10])],
        diagram := (PuElement_init (py ''a.puml'') (py ''/r/src''))
                     \<lparr>root_dir := py ''/r'', out_dir := py ''/r/out'',
                      out_file := py ''/r/out/a.png'',
                      out_file_dark := py ''/r/out/a_dark.png''\<rparr>\<rparr>"

text \<open>
  The same root with two more local files beside the including file: \<open>httpd.puml\<close>, whose
  name begins with \<open>http\<close>, and \<open>x.puml\<close>, now in both directories.
\<close>

definition local_files_world :: world where
  "local_files_world =
     include_world
       \<lparr>fs := (fs include_world)
               (py ''/r/src/httpd.puml'' \<mapsto> File 40 (py ''D->E'' @ [10]),
                py ''/r/src/x.puml'' \<mapsto> File 40 (py ''B->C'' @ [10]))\<rparr>"

text \<open>
  A batch of two sources, \<open>bad.puml\<close> with an \<open>!includesub\<close> line that lacks the
  \<open>!name\<close> part, \<open>good.puml\<close> and \<open>other.puml\<close> without includes; the output directory
  and the directory for temporary files exist, and there is no output yet.
\<close>

definition local_config :: config where
  "local_config = default_config\<lparr>render := py ''local''\<rparr>"

definition batch_world :: world where
  "batch_world =
     empty_world
       \<lparr>fs := [py ''/r/src/bad.puml'' \<mapsto> File 10 (py ''!includesub foo.puml'' @ [10]),
               py ''/r/src/good.puml'' \<mapsto> File 10 (py ''A->B'' @ [10]),
               py ''/r/src/other.puml'' \<mapsto> File 10 (py ''C->D'' @ [10]),
               py ''/r/out'' \<mapsto> Dir 5, py ''/tmp'' \<mapsto> Dir 1]\<rparr>"

definition bad_diagram :: "pystr \<times> pystr \<times> pystr \<times> pystr" where
  "bad_diagram = (py ''/r'', py ''/r/out'', py ''/r/src'', py ''bad.puml'')"

definition good_diagram :: "pystr \<times> pystr \<times> pystr \<times> pystr" where
  "good_diagram = (py ''/r'', py ''/r/out'', py ''/r/src'', py ''good.puml'')"

definition other_diagram :: "pystr \<times> pystr \<times> pystr \<times> pystr" where
  "other_diagram = (py ''/r'', py ''/r/out'', py ''/r/src'', py ''other.puml'')"

section \<open>Properties\<close>

lemma py_simps: "py [] = []" "py (c # cs) = of_char c # py cs"
  by (simp_all add: py_def)

lemma readFileRecursively_pos:
  "0 < depth \<Longrightarrow>
   readFileRecursively depth env cfg lines directory' dark_mode w =
     (case process_includes (readFileRecursively (depth - 1) env cfg) env cfg
             (preprocess_includes (lists w lines)) lines directory' dark_mode w of
        (Inl e, w1) \<Rightarrow> (Inl e, w1)
      | (Inr u, w1) \<Rightarrow> (Inr (concat (lists w1 lines)), w1))"
  by (cases depth) simp_all

text \<open>Definitions unfolded when a function is evaluated on one of the example worlds.\<close>

lemmas string_eval = py_simps isspace_def strip_def lstrip_def rstrip_def startswith_def
  endswith_def re_directive_def re_startsub_def re_keyword_only_def replace_def split_ws_def
  split_max1_def rfind_def readlines_def Let_def

lemmas world_eval = path_exists_def stat_or_zero_def open_rt_def path_parent_def new_list_def
  note_inc_time_def print_def example_env_def default_config_def empty_world_def
  PuElement_init_def posix_join_def posix_dirname_def startswith_def

lemmas pipeline_eval = on_pre_build.simps readFileRecursively_pos process_diagram_def
  discover_diagram_def file_matches_extension_def
  build_out_filename_def build_mtimes_def readFile_def preprocess_includes_def enumerate_eq_zip
  readIncludeLine_def plantuml_encode_def utf8_encode_def utf8_encode_char_def
  convert_def convert_local_def convert_server_def call_server_def format_svg_def
  decode_content_def needs_conversion_def move_file_def write_text_def pretty_print_svg_def
  mkdir_parents_def local_config_def batch_world_def bad_diagram_def good_diagram_def
  other_diagram_def

subsection \<open>Staleness\<close>

text \<open>
  C1 (amended). For both theme variants the decision to regenerate is exactly
  \<open>output_mtime < source_mtime \<or> include_mtime > output_mtime\<close>; the time of a missing
  output file is 0, which is stale whenever the source time or the include time is
  positive; the two worked examples of the specification come out as stated, for the
  normal and for the dark variant.
\<close>

theorem staleness_rule:
  "(needs_conversion d False \<longleftrightarrow> img_time d < src_time d \<or> inc_time d > img_time d) \<and>
   (needs_conversion d True \<longleftrightarrow> img_time_dark d < src_time d \<or> inc_time d > img_time_dark d) \<and>
   (fs w (out_file (diagram w)) = None \<longrightarrow> img_time (diagram (snd (build_mtimes env w))) = 0) \<and>
   (fs w (out_file_dark (diagram w)) = None \<longrightarrow>
      img_time_dark (diagram (snd (build_mtimes env w))) = 0) \<and>
   (img_time d = 0 \<and> (0 < src_time d \<or> 0 < inc_time d) \<longrightarrow> needs_conversion d False) \<and>
   (img_time_dark d = 0 \<and> (0 < src_time d \<or> 0 < inc_time d) \<longrightarrow> needs_conversion d True) \<and>
   \<not> needs_conversion (d\<lparr>img_time := 100, src_time := 50, inc_time := 0\<rparr>) False \<and>
   needs_conversion (d\<lparr>img_time := 100, src_time := 50, inc_time := 150\<rparr>) False \<and>
   \<not> needs_conversion (d\<lparr>img_time_dark := 100, src_time := 50, inc_time := 0\<rparr>) True \<and>
   needs_conversion (d\<lparr>img_time_dark := 100, src_time := 50, inc_time := 150\<rparr>) True"
  by (auto simp: needs_conversion_def build_mtimes_def stat_or_zero_def Let_def
           split: option.splits)

theorem staleness_rule_witness:
  "fs epoch_world (out_file (diagram epoch_world)) = None \<and>
   img_time (diagram (snd (build_mtimes example_env epoch_world))) = 0 \<and>
   fs epoch_world (out_file_dark (diagram epoch_world)) = None \<and>
   img_time_dark (diagram (snd (build_mtimes example_env epoch_world))) = 0 \<and>
   img_time ((PuElement_init [] [])\<lparr>src_time := 5\<rparr>) = 0 \<and>
   0 < src_time ((PuElement_init [] [])\<lparr>src_time := 5\<rparr>) \<and>
   needs_conversion ((PuElement_init [] [])\<lparr>src_time := 5\<rparr>) False \<and>
   needs_conversion ((PuElement_init [] [])\<lparr>src_time := 5\<rparr>) True"
  using staleness_rule [of "(PuElement_init [] [])\<lparr>src_time := 5\<rparr>" epoch_world example_env]
  by (simp add: epoch_world_def empty_world_def PuElement_init_def py_simps)

text \<open>
  C1 as stated fails where it calls a missing output always stale: for a source file
  whose modification time is the epoch (0) and no includes, \<open>_build_mtimes\<close> gives
  the output the time 0 and \<open>_convert\<close> does not regenerate.
\<close>

theorem missing_output_not_stale_counterexample:
  "fs epoch_world (out_file (diagram epoch_world)) = None \<and>
   fst (build_mtimes example_env epoch_world) = Inr () \<and>
   img_time (diagram (snd (build_mtimes example_env epoch_world))) = 0 \<and>
   \<not> needs_conversion (diagram (snd (build_mtimes example_env epoch_world))) False"
  by (simp add: epoch_world_def empty_world_def example_env_def build_mtimes_def
        stat_or_zero_def needs_conversion_def PuElement_init_def posix_join_def startswith_def py_simps Let_def)

subsection \<open>Include directives\<close>

lemma startswith_split: "startswith s p \<Longrightarrow> s = p @ drop (length p) s"
  unfolding startswith_def by (metis append_take_drop_id)

lemma include_not_includeurl:
  assumes "re_directive (py ''!include'') line"
  shows "\<not> re_directive (py ''!includeurl'') line"
proof
  assume "re_directive (py ''!includeurl'') line"
  then have "startswith line (py ''!includeurl'')"
    by (simp add: re_directive_def)
  from startswith_split [OF this] obtain rest where "line = py ''!includeurl'' @ rest"
    by blast
  with assms show False
    by (simp add: re_directive_def py_simps isspace_def)
qed

lemma include_not_includesub:
  assumes "re_directive (py ''!include'') line"
  shows "\<not> re_directive (py ''!includesub'') line"
proof
  assume "re_directive (py ''!includesub'') line"
  then have "startswith line (py ''!includesub'')"
    by (simp add: re_directive_def)
  from startswith_split [OF this] obtain rest where "line = py ''!includesub'' @ rest"
    by blast
  with assms show False
    by (simp add: re_directive_def py_simps isspace_def)
qed

lemma includesub_not_includeurl:
  assumes "re_directive (py ''!includesub'') line"
  shows "\<not> re_directive (py ''!includeurl'') line"
proof
  assume "re_directive (py ''!includeurl'') line"
  then have "startswith line (py ''!includeurl'')"
    by (simp add: re_directive_def)
  from startswith_split [OF this] obtain rest where "line = py ''!includeurl'' @ rest"
    by blast
  with assms show False
    by (simp add: re_directive_def startswith_def py_simps)
qed

lemma print_fields [simp]:
  "fs (print e w) = fs w" "lists (print e w) = lists w" "fresh (print e w) = fresh w"
  "diagram (print e w) = diagram w" "stdout (print e w) = stdout w @ [e]"
  by (simp_all add: print_def)

lemma path_exists_print [simp]: "path_exists (print e w) p = path_exists w p"
  by (simp add: path_exists_def)

lemma except_PyException:
  "except_FileNotFoundError temp_file (Inl (PyException m), w) = (Inl (PyException m), w)"
  by (simp add: except_FileNotFoundError_def)

text \<open>
  When a single blank follows the keyword, what \<open>line[9:].rstrip()\<close> leaves is the
  target, the run of non-blank characters that \<open>\S+\<close> matched.
\<close>

lemma drop_spaces:
  assumes "list_all isspace sp"
  shows "dropWhile isspace (rev sp @ ys) = dropWhile isspace ys"
  by (rule dropWhile_append2) (use assms in \<open>simp add: list_all_iff\<close>)

lemma keep_token:
  assumes "tok \<noteq> []" and "\<not> isspace (last tok)"
  shows "dropWhile isspace (rev tok) = rev tok"
  using assms by (cases tok rule: rev_cases) simp_all

lemma last_token:
  assumes "xs \<noteq> []" and "\<not> isspace (hd xs)"
  shows "takeWhile (\<lambda>c. \<not> isspace c) xs \<noteq> [] \<and>
         \<not> isspace (last (takeWhile (\<lambda>c. \<not> isspace c) xs))"
proof -
  let ?tok = "takeWhile (\<lambda>c. \<not> isspace c) xs"
  have tok: "?tok \<noteq> []" using assms by (cases xs) simp_all
  then have "last ?tok \<in> set ?tok" by (rule last_in_set)
  from set_takeWhileD [OF this] have "\<not> isspace (last ?tok)" by (rule conjunct2)
  with tok show ?thesis by (rule conjI)
qed

lemma rstrip_append:
  assumes "tok \<noteq> []" and "\<not> isspace (last tok)" and "list_all isspace sp"
  shows "rstrip (tok @ sp) = tok"
  by (simp add: rstrip_def drop_spaces [OF assms(3)] keep_token [OF assms(1,2)])

lemma rstrip_token:
  assumes "xs \<noteq> []" and "\<not> isspace (hd xs)"
    and "list_all isspace (dropWhile (\<lambda>c. \<not> isspace c) xs)"
  shows "rstrip xs = takeWhile (\<lambda>c. \<not> isspace c) xs"
proof -
  note t = last_token [OF assms(1,2)]
  from rstrip_append [OF conjunct1 [OF t] conjunct2 [OF t] assms(3)]
  show ?thesis by (simp only: takeWhile_dropWhile_id)
qed

lemma directive_target:
  assumes "re_directive keyword line" and "\<not> isspace (line ! Suc (length keyword))"
  shows "rstrip (drop (Suc (length keyword)) line) =
           takeWhile (\<lambda>c. \<not> isspace c) (drop (Suc (length keyword)) line)"
proof -
  let ?n = "length keyword"
  let ?r = "drop ?n line"
  let ?r' = "drop (Suc ?n) line"
  from assms(1) have a: "dropWhile isspace ?r \<noteq> ?r"
    and b: "dropWhile (\<lambda>c. \<not> isspace c) (dropWhile isspace ?r) \<noteq> dropWhile isspace ?r"
    and c: "list_all isspace (dropWhile (\<lambda>c. \<not> isspace c) (dropWhile isspace ?r))"
    by (simp_all add: re_directive_def Let_def)
  have tl: "?r' = tl ?r" by (simp add: drop_Suc tl_drop)
  have r1: "dropWhile isspace ?r = dropWhile isspace ?r'"
  proof (cases ?r)
    case Nil
    with a show ?thesis by simp
  next
    case (Cons s r')
    with a have "isspace s" by (auto split: if_splits)
    with Cons tl show ?thesis by simp
  qed
  have ne: "?r' \<noteq> []"
  proof
    assume e: "?r' = []"
    have "dropWhile isspace ?r = []" unfolding r1 e by simp
    with b show False by simp
  qed
  then have "hd ?r' = line ! Suc ?n" by (simp add: hd_drop_conv_nth)
  with assms(2) have nh: "\<not> isspace (hd ?r')" by simp
  with ne have "dropWhile isspace ?r' = ?r'" by (cases ?r') simp_all
  with r1 c have "list_all isspace (dropWhile (\<lambda>c. \<not> isspace c) ?r')" by simp
  from rstrip_token [OF ne nh this] show ?thesis .
qed

text \<open>\<open>_readIncludeLine\<close>, branch by branch.\<close>

lemma readIncludeLine_url:
  "re_directive (py ''!includeurl'') line \<Longrightarrow>
   readIncludeLine rec env cfg line temp_file dir dark_mode w = (Inr (temp_file @ line), w)"
  by (simp add: readIncludeLine_def)

lemma readIncludeLine_unknown:
  "\<not> re_directive (py ''!includeurl'') line \<Longrightarrow> \<not> re_directive (py ''!includesub'') line \<Longrightarrow>
   \<not> re_directive (py ''!include'') line \<Longrightarrow>
   readIncludeLine rec env cfg line temp_file dir dark_mode w =
     (Inl (PyException (py ''Unknown include type: '' @ line)), w)"
  by (simp add: readIncludeLine_def)

lemma readIncludeLine_remote:
  assumes "re_directive (py ''!include'') line"
    and "inc_file = (if dark_mode
                     then replace (rstrip (drop 9 line)) (theme_light cfg) (theme_dark cfg)
                     else rstrip (drop 9 line))"
    and "startswith inc_file (py ''http'') \<or> startswith inc_file (py ''<'')"
  shows "readIncludeLine rec env cfg line temp_file dir dark_mode w = (Inr (temp_file @ line), w)"
  using assms(1,3) include_not_includeurl [OF assms(1)] include_not_includesub [OF assms(1)]
  unfolding assms(2)
  by (simp add: readIncludeLine_def Let_def)

lemma readIncludeLine_local:
  assumes "re_directive (py ''!include'') line"
    and "inc_file = (if dark_mode
                     then replace (rstrip (drop 9 line)) (theme_light cfg) (theme_dark cfg)
                     else rstrip (drop 9 line))"
    and "\<not> startswith inc_file (py ''http'')" and "\<not> startswith inc_file (py ''<'')"
    and "inc_file_abs = path_resolve env (path_join env directory' inc_file)"
    and "inc_file_abs_alt = path_resolve env (path_join env (root_dir (diagram w)) inc_file)"
  shows "readIncludeLine rec env cfg line temp_file directory' dark_mode w =
     (if path_exists w inc_file_abs
      then except_FileNotFoundError temp_file
             (read_incl_line_file rec env temp_file dark_mode inc_file_abs w)
      else if path_exists w inc_file_abs_alt
      then except_FileNotFoundError temp_file
             (read_incl_line_file rec env temp_file dark_mode inc_file_abs_alt
                (print (Not_in_primary_location inc_file_abs) w))
      else (Inl (PyException (py ''Include could not be resolved: '' @ line)),
            print (Not_in_secondary_location inc_file_abs_alt)
              (print (Not_in_primary_location inc_file_abs) w)))"
proof -
  note no_url = include_not_includeurl [OF assms(1)]
  note no_sub = include_not_includesub [OF assms(1)]
  show ?thesis
    using assms(1,3,4) no_url no_sub unfolding assms(2,5,6)
    by (simp add: readIncludeLine_def Let_def except_PyException)
qed

lemma readIncludeLine_sub:
  assumes "re_directive (py ''!includesub'') line"
    and "split_on 33 (strip (drop 11 line)) = parts" and "length parts = 2"
    and "inc_file = (if dark_mode then replace (parts ! 0) (theme_light cfg) (theme_dark cfg)
                     else parts ! 0)"
    and "read_incl_sub env temp_file dark_mode
           (path_resolve env (path_join env dir inc_file)) (parts ! 1) w = (Inl e1, w1)"
    and "read_incl_sub env temp_file dark_mode
           (path_resolve env (path_join env (root_dir (diagram w1)) inc_file)) (parts ! 1) w1 =
         (Inl e2, w2)"
  shows "readIncludeLine rec env cfg line temp_file dir dark_mode w =
           (Inl e2, print (Could_not_find_included_file e1 e2) w2)"
  using assms(1,3,5,6) includesub_not_includeurl [OF assms(1)] unfolding assms(4)
  by (simp add: readIncludeLine_def Let_def assms(2))

text \<open>
  C5 (amended). A line \<open>!include TARGET\<close> with a single blank between the keyword and the
  target, whose target (after the dark-mode substitution) starts neither with \<open>http\<close>
  nor with \<open><\<close>, is resolved against the including file's directory first; only if
  nothing exists there, against the diagram's root directory; and if nothing exists
  there either, an exception is raised whose message ends with the line itself.
\<close>

theorem include_resolution_order:
  assumes "re_directive (py ''!include'') line" and "\<not> isspace (line ! 9)"
    and "target = takeWhile (\<lambda>c. \<not> isspace c) (drop 9 line)"
    and "inc_file = (if dark_mode then replace target (theme_light cfg) (theme_dark cfg)
                     else target)"
    and "\<not> startswith inc_file (py ''http'')" and "\<not> startswith inc_file (py ''<'')"
    and "inc_file_abs = path_resolve env (path_join env directory' inc_file)"
    and "inc_file_abs_alt = path_resolve env (path_join env (root_dir (diagram w)) inc_file)"
  shows "readIncludeLine rec env cfg line temp_file directory' dark_mode w =
     (if path_exists w inc_file_abs
      then except_FileNotFoundError temp_file
             (read_incl_line_file rec env temp_file dark_mode inc_file_abs w)
      else if path_exists w inc_file_abs_alt
      then except_FileNotFoundError temp_file
             (read_incl_line_file rec env temp_file dark_mode inc_file_abs_alt
                (print (Not_in_primary_location inc_file_abs) w))
      else (Inl (PyException (py ''Include could not be resolved: '' @ line)),
            print (Not_in_secondary_location inc_file_abs_alt)
              (print (Not_in_primary_location inc_file_abs) w)))"
proof -
  have len: "Suc (length (py ''!include'')) = 9" by (simp add: py_simps)
  have "rstrip (drop 9 line) = target"
    using directive_target [OF assms(1)] assms(2) unfolding len assms(3) by simp
  with assms(4) have inc: "inc_file =
      (if dark_mode then replace (rstrip (drop 9 line)) (theme_light cfg) (theme_dark cfg)
       else rstrip (drop 9 line))"
    by simp
  show ?thesis
    by (rule readIncludeLine_local [OF assms(1) inc assms(5,6,7,8)])
qed

theorem include_resolution_order_witness:
  "re_directive (py ''!include'') (py ''!include x.puml'') \<and>
   \<not> isspace (py ''!include x.puml'' ! 9) \<and>
   \<not> startswith (py ''x.puml'') (py ''http'') \<and>
   \<not> startswith (py ''x.puml'') (py ''<'') \<and>
   \<not> path_exists include_world (py ''/r/src/x.puml'') \<and>
   path_exists include_world (py ''/r/x.puml'') \<and>
   readIncludeLine (readFileRecursively 1 example_env default_config) example_env default_config
     (py ''!include x.puml'') [] (py ''/r/src'') False include_world =
   except_FileNotFoundError []
     (read_incl_line_file (readFileRecursively 1 example_env default_config) example_env []
        False (py ''/r/x.puml'')
        (print (Not_in_primary_location (py ''/r/src/x.puml'')) include_world)) \<and>
   fst (read_incl_line_file (readFileRecursively 1 example_env default_config) example_env []
        False (py ''/r/x.puml'')
        (print (Not_in_primary_location (py ''/r/src/x.puml'')) include_world)) =
     Inr (py ''B->C'' @ [10])"
proof -
  have a: "re_directive (py ''!include'') (py ''!include x.puml'')"
    by (simp add: string_eval)
  have a2: "\<not> isspace (py ''!include x.puml'' ! 9)"
    by (simp add: string_eval)
  have t: "py ''x.puml'' = takeWhile (\<lambda>c. \<not> isspace c) (drop 9 (py ''!include x.puml''))"
    by (simp add: string_eval)
  have i: "py ''x.puml'' =
      (if False
       then replace (py ''x.puml'') (theme_light default_config) (theme_dark default_config)
       else py ''x.puml'')"
    by simp
  have b: "\<not> startswith (py ''x.puml'') (py ''http'')" by (simp add: string_eval)
  have c: "\<not> startswith (py ''x.puml'') (py ''<'')" by (simp add: string_eval)
  have p1: "py ''/r/src/x.puml'' =
      path_resolve example_env (path_join example_env (py ''/r/src'') (py ''x.puml''))"
    by (simp add: world_eval py_simps)
  have p2: "py ''/r/x.puml'' =
      path_resolve example_env
        (path_join example_env (root_dir (diagram include_world)) (py ''x.puml''))"
    by (simp add: world_eval include_world_def py_simps)
  have d: "\<not> path_exists include_world (py ''/r/src/x.puml'')"
    by (simp add: world_eval include_world_def py_simps)
  have e: "path_exists include_world (py ''/r/x.puml'')"
    by (simp add: world_eval include_world_def py_simps)
  have f: "fst (read_incl_line_file (readFileRecursively 1 example_env default_config)
        example_env [] False (py ''/r/x.puml'')
        (print (Not_in_primary_location (py ''/r/src/x.puml'')) include_world)) =
     Inr (py ''B->C'' @ [10])"
    by (simp add: string_eval world_eval include_world_def read_incl_line_file_def
        preprocess_includes_def enumerate_eq_zip)
  note r = include_resolution_order [OF a a2 t i b c p1 p2,
      of "readFileRecursively 1 example_env default_config" "[]"]
  note r' = r [unfolded if_not_P [OF d] if_P [OF e]]
  show ?thesis
    by (intro conjI a a2 b c d e f r')
qed

text \<open>
  C5 as stated fails for local files that the code does not take for local, or does not
  find. The file \<open>httpd.puml\<close> exists beside the including file, but its name begins with
  \<open>http\<close>: the line is returned as it is and nothing is looked up. With two blanks after
  the keyword, \<open>line[9:]\<close> keeps one of them in the file name: \<open>x.puml\<close> exists in both
  directories and the resolution fails.
\<close>

theorem local_include_not_resolved_counterexample:
  "path_exists local_files_world (py ''/r/src/httpd.puml'') \<and>
   readIncludeLine (readFileRecursively 1 example_env default_config) example_env default_config
     (py ''!include httpd.puml'') [] (py ''/r/src'') False local_files_world =
     (Inr (py ''!include httpd.puml''), local_files_world) \<and>
   path_exists local_files_world (py ''/r/src/x.puml'') \<and>
   path_exists local_files_world (py ''/r/x.puml'') \<and>
   fst (readIncludeLine (readFileRecursively 1 example_env default_config) example_env
          default_config (py ''!include  x.puml'') [] (py ''/r/src'') False local_files_world) =
     Inl (PyException (py ''Include could not be resolved: '' @ py ''!include  x.puml''))"
  by (simp add: string_eval world_eval local_files_world_def include_world_def
        readIncludeLine_def except_FileNotFoundError_def)

subsection \<open>Sub-includes\<close>

lemma malformed_includesub:
  assumes "re_directive (py ''!includesub'') line"
    and "length (split_on 33 (strip (drop 11 line))) \<noteq> 2"
  shows "readIncludeLine rec env cfg line temp_file directory' dark_mode w =
     (Inl (PyException
        (py ''Invalid !includesub syntax. Expected: !includesub <filepath>!<sub_name>'')), w)"
  using assms includesub_not_includeurl [OF assms(1)]
  by (simp add: readIncludeLine_def Let_def)

lemma read_incl_sub_raises: "\<exists>e w'. read_incl_sub env temp_file dark_mode p name w = (Inl e, w')"
  by (simp add: read_incl_sub_def Let_def new_list_def split: sum.splits)

lemma includesub_always_raises:
  assumes "re_directive (py ''!includesub'') line"
  shows "\<exists>e w'. readIncludeLine rec env cfg line temp_file directory' dark_mode w = (Inl e, w')"
proof (cases "length (split_on 33 (strip (drop 11 line))) = 2")
  case False
  with malformed_includesub [OF assms] show ?thesis by blast
next
  case True
  let ?inc = "if dark_mode
              then replace (split_on 33 (strip (drop 11 line)) ! 0) (theme_light cfg) (theme_dark cfg)
              else split_on 33 (strip (drop 11 line)) ! 0"
  let ?sub = "split_on 33 (strip (drop 11 line)) ! 1"
  obtain e1 w1 where 1: "read_incl_sub env temp_file dark_mode
      (path_resolve env (path_join env directory' ?inc)) ?sub w = (Inl e1, w1)"
    using read_incl_sub_raises by blast
  obtain e2 w2 where 2: "read_incl_sub env temp_file dark_mode
      (path_resolve env (path_join env (root_dir (diagram w1)) ?inc)) ?sub w1 = (Inl e2, w2)"
    using read_incl_sub_raises by blast
  show ?thesis
    using assms True includesub_not_includeurl [OF assms] 1 2
    by (simp add: readIncludeLine_def Let_def)
qed


text \<open>
  C3. The directive \<open>!includesub s.puml!X\<close> is resolved against a file that exists and
  holds a block \<open>!startsub X\<close> ... \<open>!endsub\<close>. The loop of \<open>_read_incl_sub\<close> extracts the
  (stripped) line between the markers, and the call that should flatten it raises
  \<open>TypeError\<close>, in the including file's directory and in the root directory alike: the
  directive yields no content.
\<close>

theorem includesub_raises_TypeError:
  "extract_sub (py ''X'') False
     (readlines (py ''!startsub X'' @ [10] @ py ''A->B'' @ [10] @ py ''!endsub'' @ [10])) =
     [py ''A->B''] \<and>
   fst (readIncludeLine (readFileRecursively 1 example_env default_config) example_env
          default_config (py ''!includesub s.puml!X'') [] (py ''/r/src'') False include_world) =
     Inl TypeError"
  by (simp add: string_eval world_eval include_world_def readIncludeLine_def read_incl_sub_def)

subsection \<open>The batch\<close>

lemma build_out_filename_fields [simp]:
  "file_name (build_out_filename env cfg d) = file_name d"
  "directory (build_out_filename env cfg d) = directory d"
  "root_dir (build_out_filename env cfg d) = root_dir d"
  "out_dir (build_out_filename env cfg d) = out_dir d"
  "src_file (build_out_filename env cfg d) = src_file d"
  "b64encoded (build_out_filename env cfg d) = b64encoded d"
  "concat_file (build_out_filename env cfg d) = concat_file d"
  by (simp_all add: build_out_filename_def Let_def)



lemma new_list_fields [simp]:
  "fs (snd (new_list xs w)) = fs w" "diagram (snd (new_list xs w)) = diagram w"
  "stdout (snd (new_list xs w)) = stdout w" "fst (new_list xs w) = fresh w"
  "lists (snd (new_list xs w)) = (lists w)(fresh w := xs)"
  "fresh (snd (new_list xs w)) = Suc (fresh w)"
  by (simp_all add: new_list_def)



subsection \<open>Options that are not consulted\<close>













lemma readIncludeLine_prettify_svg:
  "readIncludeLine rec env (cfg\<lparr>prettify_svg := b\<rparr>) = readIncludeLine rec env cfg"
  by (simp add: fun_eq_iff readIncludeLine_def cong: if_cong)

lemma process_includes_prettify_svg:
  "process_includes rec env (cfg\<lparr>prettify_svg := b\<rparr>) ls lines dir dark w =
   process_includes rec env cfg ls lines dir dark w"
  by (induction rec env cfg ls lines dir dark w rule: process_includes.induct)
     (simp_all add: readIncludeLine_prettify_svg split: prod.splits sum.splits)

lemma readFileRecursively_prettify_svg:
  "readFileRecursively depth env (cfg\<lparr>prettify_svg := b\<rparr>) = readFileRecursively depth env cfg"
proof (induction depth)
  case 0
  show ?case by (simp add: fun_eq_iff)
next
  case (Suc depth)
  show ?case by (rule ext)+ (simp add: Suc process_includes_prettify_svg)
qed

lemma readFile_prettify_svg:
  "readFile env (cfg\<lparr>prettify_svg := b\<rparr>) = readFile env cfg"
  by (simp add: fun_eq_iff readFile_def readFileRecursively_prettify_svg
        del: readFileRecursively.simps)

lemma format_svg_prettify_svg:
  "format_svg env (cfg\<lparr>prettify_svg := b\<rparr>) = format_svg env cfg"
  by (simp add: fun_eq_iff format_svg_def)

lemma call_server_prettify_svg:
  "call_server env (cfg\<lparr>prettify_svg := b\<rparr>) = call_server env cfg"
  by (simp add: fun_eq_iff call_server_def format_svg_prettify_svg Let_def
        cong: if_cong sum.case_cong prod.case_cong)

lemma convert_server_prettify_svg:
  "convert_server env (cfg\<lparr>prettify_svg := b\<rparr>) = convert_server env cfg"
  by (simp add: fun_eq_iff convert_server_def format_svg_prettify_svg
        call_server_prettify_svg Let_def cong: sum.case_cong prod.case_cong)

lemma convert_local_prettify_svg:
  "convert_local env (cfg\<lparr>prettify_svg := b\<rparr>) = convert_local env cfg"
  by (simp add: fun_eq_iff convert_local_def Let_def
        cong: if_cong sum.case_cong prod.case_cong list.case_cong)

lemma convert_prettify_svg:
  "convert env (cfg\<lparr>prettify_svg := b\<rparr>) = convert env cfg"
  by (simp add: fun_eq_iff convert_def convert_server_prettify_svg convert_local_prettify_svg
        Let_def cong: if_cong)

lemma search_start_tag_prettify_svg:
  "search_start_tag env (cfg\<lparr>prettify_svg := b\<rparr>) outDir ls = search_start_tag env cfg outDir ls"
  by (induction ls) (simp_all add: Let_def split: list.splits)

lemma discover_diagram_prettify_svg:
  "discover_diagram env (cfg\<lparr>prettify_svg := b\<rparr>) = discover_diagram env cfg"
  by (simp add: fun_eq_iff discover_diagram_def search_start_tag_prettify_svg
        build_out_filename_def Let_def
        cong: if_cong sum.case_cong prod.case_cong option.case_cong)

lemma process_diagram_prettify_svg:
  "process_diagram env (cfg\<lparr>prettify_svg := b\<rparr>) = process_diagram env cfg"
  by (simp add: fun_eq_iff process_diagram_def discover_diagram_prettify_svg
        readFile_prettify_svg convert_prettify_svg
        cong: sum.case_cong prod.case_cong)

lemma on_pre_build_prettify_svg:
  "on_pre_build env (cfg\<lparr>prettify_svg := b\<rparr>) found w = on_pre_build env cfg found w"
  by (induction found arbitrary: w)
     (simp_all add: process_diagram_prettify_svg file_matches_extension_def
        cong: sum.case_cong prod.case_cong)


subsection \<open>Runs of the build hook on the example batch\<close>



lemma run_good_server:
  "(case on_pre_build example_env default_config [good_diagram, other_diagram] batch_world of
      (r, w) \<Rightarrow>
        r = Inl AttributeError \<and>
        last (stdout w) = Wrong_response_status (py ''good.puml'') 404 \<and>
        Processing_diagram (py ''other.puml'') \<notin> set (stdout w) \<and>
        fs w = fs batch_world)"
  by (simp add: pipeline_eval string_eval world_eval)

lemma run_good_svg:
  "(case on_pre_build example_env (local_config\<lparr>output_format := py ''svg''\<rparr>) [good_diagram]
           batch_world of
      (r, w) \<Rightarrow>
        r = Inr () \<and>
        fs w (py ''/r/out/good.svg'') = Some (File 1000 (py ''<svg/>'' @ [10])))"
  by (simp add: pipeline_eval string_eval world_eval)




subsection \<open>Server responses\<close>

lemma convert_server_non200:
  assumes "render cfg \<noteq> py ''local''" and "needs_conversion (diagram w) dark_mode"
    and "http_request env (disable_ssl_certificate_validation cfg)
           (server cfg @ py ''/'' @ output_format cfg @ py ''/'' @ b64encoded (diagram w)) =
         Inr (status, content)"
    and "status \<noteq> 200"
  shows "fst (convert env cfg dark_mode w) = Inl AttributeError"
    and "fs (snd (convert env cfg dark_mode w)) = fs w"
    and "Wrong_response_status (file_name (diagram w)) status \<in>
           set (stdout (snd (convert env cfg dark_mode w)))"
  using assms
  by (simp_all add: convert_def convert_server_def call_server_def format_svg_def
        decode_content_def Let_def)

text \<open>
  C4. In server mode (the default configuration) with a server that answers 404, the
  stale diagram \<open>good.puml\<close> makes \<open>_call_server\<close> print the wrong status and return
  \<open>None\<close>, on which \<open>_convert\<close> calls \<open>decode\<close>: the hook ends with
  \<open>AttributeError\<close>, nothing is written, and the next file of the batch is not
  processed.
\<close>

theorem server_non200_aborts_batch:
  "fst (on_pre_build example_env default_config [good_diagram, other_diagram] batch_world) =
     Inl AttributeError \<and>
   last (stdout (snd (on_pre_build example_env default_config [good_diagram, other_diagram]
                        batch_world))) =
     Wrong_response_status (py ''good.puml'') 404 \<and>
   Processing_diagram (py ''other.puml'') \<notin>
     set (stdout (snd (on_pre_build example_env default_config [good_diagram, other_diagram]
                         batch_world))) \<and>
   fs (snd (on_pre_build example_env default_config [good_diagram, other_diagram] batch_world)) =
     fs batch_world"
  using run_good_server [unfolded case_prod_beta] by blast

subsection \<open>The dark pass\<close>




subsection \<open>Pretty-printing\<close>

text \<open>
  C8. The option \<open>prettify_svg\<close> is never read: the build is the same for both of its
  values. With the option false (its default), local rendering and the output format
  \<open>svg\<close>, the renderer's output \<open><svg/>\<close> is passed through the pretty-printer (which in
  the example world appends a newline) before it is written.
\<close>

theorem prettify_svg_is_ignored:
  "on_pre_build env (cfg\<lparr>prettify_svg := b\<rparr>) batch w = on_pre_build env cfg batch w \<and>
   \<not> prettify_svg (local_config\<lparr>output_format := py ''svg''\<rparr>) \<and>
   plantuml_call example_env args files = Inr [(py ''a.svg'', py ''<svg/>'')] \<and>
   etree_pretty example_env (py ''<svg/>'') = Inr (py ''<svg/>'' @ [10]) \<and>
   fst (on_pre_build example_env (local_config\<lparr>output_format := py ''svg''\<rparr>) [good_diagram]
          batch_world) = Inr () \<and>
   fs (snd (on_pre_build example_env (local_config\<lparr>output_format := py ''svg''\<rparr>)
              [good_diagram] batch_world))
     (py ''/r/out/good.svg'') = Some (File 1000 (py ''<svg/>'' @ [10]))"
proof -
  have "\<not> prettify_svg (local_config\<lparr>output_format := py ''svg''\<rparr>)"
    by (simp add: local_config_def default_config_def)
  moreover have "plantuml_call example_env args files = Inr [(py ''a.svg'', py ''<svg/>'')]"
    by (simp add: example_env_def)
  moreover have "etree_pretty example_env (py ''<svg/>'') = Inr (py ''<svg/>'' @ [10])"
    by (simp add: example_env_def)
  ultimately show ?thesis
    using on_pre_build_prettify_svg run_good_svg [unfolded case_prod_beta] by blast
qed

end
